theory Spec2Isabelle
  imports Main "HOL-Library.Word"
begin

unbundle bit_operations_syntax

section \<open>servicefs: the file operations of service inodes (drivers/staging/servicefs/file.c)\<close>

subsection \<open>Machine types and kernel constants\<close>

text \<open>
  The kernel is built LP64: \<open>int\<close> and \<open>unsigned int\<close> are 32 bits; \<open>long\<close>,
  \<open>size_t\<close>, \<open>ssize_t\<close> and user pointers are 64 bits. A user pointer is its address,
  \<open>NULL\<close> is 0.
\<close>

type_synonym c_int = "32 word"
type_synonym c_uint = "32 word"
type_synonym c_long = "64 word"
type_synonym size_t = "64 word"
type_synonym ssize_t = "64 word"
type_synonym uptr = "64 word"

text \<open>Error numbers of include/uapi/asm-generic/errno-base.h, at either width.\<close>

definition ENOMEM :: "'a::len word" where "ENOMEM = 12"
definition EFAULT :: "'a::len word" where "EFAULT = 14"
definition EINVAL :: "'a::len word" where "EINVAL = 22"
definition ENOTTY :: "'a::len word" where "ENOTTY = 25"

text \<open>
  Poll events and open flags of the generic ABI headers (\<open>O_NONBLOCK\<close> is octal 4000,
  \<open>O_CLOEXEC\<close> octal 2000000).
\<close>

definition POLLIN :: c_int where "POLLIN = 0x0001"
definition POLLRDNORM :: c_int where "POLLRDNORM = 0x0040"

definition O_RDONLY :: c_uint where "O_RDONLY = 0"
definition O_NONBLOCK :: c_uint where "O_NONBLOCK = 0x800"
definition O_CLOEXEC :: c_uint where "O_CLOEXEC = 0x80000"

definition MAX_SCHEDULE_TIMEOUT :: c_long where "MAX_SCHEDULE_TIMEOUT = 0x7FFFFFFFFFFFFFFF"

definition UIO_FASTIOV :: size_t where "UIO_FASTIOV = 8"
definition UIO_MAXIOV :: size_t where "UIO_MAXIOV = 1024"

text \<open>
  The ioctl number fields of include/uapi/asm-generic/ioctl.h: the command number in
  bits 0 to 7, the type character in bits 8 to 15.
\<close>

definition IOC_NR :: "c_uint \<Rightarrow> c_uint" where
  "IOC_NR cmd = cmd AND 0xFF"

definition IOC_TYPE :: "c_uint \<Rightarrow> c_uint" where
  "IOC_TYPE cmd = drop_bit 8 cmd AND 0xFF"

text \<open>A panic of the kernel (\<open>BUG_ON\<close>) ends the call without a result.\<close>

datatype 'a kres = Bug | Ok 'a

subsection \<open>The structures of servicefs_private.h\<close>

text \<open>
  Wait queues, mutexes and the task pointer are left out: the file operations below are
  modelled one call at a time. A pointer to a channel is the channel's \<open>c_id\<close>, which
  the id allocator keeps unique among the channels linked on \<open>s_channels\<close>.
\<close>

record iov =
  iov_base :: uptr
  iov_len :: size_t

record channel =
  c_id :: nat
  c_events :: c_long
  c_flags :: c_int
  c_context :: uptr

record message =
  m_id :: int
  m_priority :: c_int
  m_pid :: c_int
  m_tid :: c_int
  m_euid :: c_uint
  m_egid :: c_uint
  m_channel :: "nat option"
  m_op :: c_int
  m_sbuf :: "iov list"
  m_rbuf :: "iov list"
  m_fds :: "c_int list"
  m_completed :: bool
  m_interrupted :: bool
  m_status :: ssize_t

definition MESSAGE_NO_ID :: int where "MESSAGE_NO_ID = - 1"

record impulse =
  i_pid :: c_int
  i_tid :: c_int
  i_euid :: c_uint
  i_egid :: c_uint
  i_channel :: nat
  i_op :: c_int
  i_data :: "c_long list"
  i_len :: size_t

record service =
  s_count :: c_int
  s_channels :: "channel list"
  s_impulses :: "impulse list"
  s_messages :: "message list"
  s_active :: "message list"
  s_flags :: c_int
  s_context :: uptr
  s_filp :: "nat option"

definition SERVICE_FLAGS_CANCELED :: c_int where "SERVICE_FLAGS_CANCELED = push_bit 0 1"
definition SERVICE_FLAGS_OPEN_NOTIFY :: c_int where "SERVICE_FLAGS_OPEN_NOTIFY = push_bit 1 1"
definition SERVICE_FLAGS_CLOSE_NOTIFY :: c_int where "SERVICE_FLAGS_CLOSE_NOTIFY = push_bit 2 1"
definition SERVICE_FLAGS_DEFAULT :: c_int where
  "SERVICE_FLAGS_DEFAULT = (SERVICE_FLAGS_OPEN_NOTIFY OR SERVICE_FLAGS_CLOSE_NOTIFY)"

definition is_service_canceled :: "service \<Rightarrow> bool" where
  "is_service_canceled svc = (s_flags svc AND SERVICE_FLAGS_CANCELED \<noteq> 0)"

subsection \<open>Files and inodes\<close>

datatype file_operations =
  initial_file_operations | service_file_operations | channel_file_operations

text \<open>
  \<open>private_data\<close> is a null pointer, the service of the inode, or a channel of it.
  \<open>f_addr\<close> stands for the address of the file structure, which \<open>s_filp\<close> stores.
  The open functions set \<open>f_op\<close> and \<open>private_data\<close> together, so a function of one
  side is never given the pointer of the other side; the model stops such a call where
  it stops the null pointer (\<open>BUG_ON\<close>).
\<close>

datatype pdata = PNull | PService | PChannel nat

record struct_file =
  f_addr :: nat
  private_data :: pdata
  f_op :: file_operations
  f_flags :: c_uint

record inode =
  i_private :: "service option"

subsection \<open>Calls into the message layer\<close>

text \<open>
  The handlers declared in servicefs_private.h (service.c holds their bodies) block on
  other threads and reach into user memory, so their results are parameters of the
  model. Every call of a client handler is also written to a trace, which is how
  "a message was sent" and "nothing was sent" are observed.
\<close>

datatype task_state = TASK_INTERRUPTIBLE | TASK_UNINTERRUPTIBLE

record sendv_call =
  sv_channel :: nat
  sv_op :: c_int
  sv_svec :: "iov list option"
  sv_scnt :: size_t
  sv_rvec :: "iov list option"
  sv_rcnt :: size_t
  sv_fds :: "c_int list option"
  sv_fdcnt :: size_t
  sv_task_state :: task_state

record impulse_call =
  ic_channel :: nat
  ic_op :: c_int
  ic_buf :: uptr
  ic_len :: size_t

datatype client_call = Sendv sendv_call | Send_impulse impulse_call

type_synonym trace = "client_call list"

text \<open>The service handlers, one constructor for each, with the arguments of the call.\<close>

datatype service_call =
    Set_service_context uptr
  | Set_channel_context c_int uptr
  | Msg_recv uptr c_long bool
  | Msg_readv c_int "iov list" size_t
  | Msg_writev c_int "iov list" size_t
  | Msg_seek c_int c_long c_int
  | Msg_busv c_int c_long c_int c_long size_t
  | Msg_reply c_int ssize_t
  | Msg_reply_fd c_int ssize_t
  | Mod_channel_events c_int c_int c_int
  | Msg_push_fd c_int c_uint
  | Msg_get_fd c_int c_uint
  | Push_channel c_int c_int c_int uptr uptr bool
  | Close_channel c_int
  | Check_channel c_int c_int c_int uptr uptr bool
  | Cancel_service

datatype rw = READ | WRITE

record env =
  sendv_body :: "sendv_call \<Rightarrow> service \<Rightarrow> ssize_t \<times> service"
  send_impulse_body :: "impulse_call \<Rightarrow> service \<Rightarrow> c_int \<times> service"
  service_handler :: "service_call \<Rightarrow> service \<Rightarrow> c_long \<times> service"
  rw_copy_check_uvector :: "rw \<Rightarrow> uptr \<Rightarrow> size_t \<Rightarrow> ssize_t \<times> iov list"
  kmalloc_ok :: "size_t \<Rightarrow> bool"

definition servicefs_msg_sendv ::
  "env \<Rightarrow> sendv_call \<Rightarrow> service \<times> trace \<Rightarrow> ssize_t \<times> service \<times> trace" where
  "servicefs_msg_sendv e a st =
     (case st of (svc, tr) \<Rightarrow>
        (case sendv_body e a svc of (r, svc') \<Rightarrow> (r, svc', tr @ [Sendv a])))"

definition servicefs_msg_send_impulse ::
  "env \<Rightarrow> impulse_call \<Rightarrow> service \<times> trace \<Rightarrow> c_int \<times> service \<times> trace" where
  "servicefs_msg_send_impulse e a st =
     (case st of (svc, tr) \<Rightarrow>
        (case send_impulse_body e a svc of (r, svc') \<Rightarrow> (r, svc', tr @ [Send_impulse a])))"

definition servicefs_msg_sendv_interruptible ::
  "env \<Rightarrow> nat \<Rightarrow> c_int \<Rightarrow> iov list option \<Rightarrow> size_t \<Rightarrow> iov list option \<Rightarrow> size_t \<Rightarrow>
   c_int list option \<Rightarrow> size_t \<Rightarrow> service \<times> trace \<Rightarrow> ssize_t \<times> service \<times> trace" where
  "servicefs_msg_sendv_interruptible e c opc svec scnt rvec rcnt fds fdcnt st =
     servicefs_msg_sendv e
       \<lparr>sv_channel = c, sv_op = opc, sv_svec = svec, sv_scnt = scnt, sv_rvec = rvec,
        sv_rcnt = rcnt, sv_fds = fds, sv_fdcnt = fdcnt, sv_task_state = TASK_INTERRUPTIBLE\<rparr> st"

definition servicefs_msg_sendv_uninterruptible ::
  "env \<Rightarrow> nat \<Rightarrow> c_int \<Rightarrow> iov list option \<Rightarrow> size_t \<Rightarrow> iov list option \<Rightarrow> size_t \<Rightarrow>
   c_int list option \<Rightarrow> size_t \<Rightarrow> service \<times> trace \<Rightarrow> ssize_t \<times> service \<times> trace" where
  "servicefs_msg_sendv_uninterruptible e c opc svec scnt rvec rcnt fds fdcnt st =
     servicefs_msg_sendv e
       \<lparr>sv_channel = c, sv_op = opc, sv_svec = svec, sv_scnt = scnt, sv_rvec = rvec,
        sv_rcnt = rcnt, sv_fds = fds, sv_fdcnt = fdcnt, sv_task_state = TASK_UNINTERRUPTIBLE\<rparr> st"

subsection \<open>Channel allocation and removal\<close>

text \<open>
  Modelled from the spec: the id allocator behind \<open>s_channel_idr\<close> (its code is in
  service.c, which is not among the sources). Section 4.1: allocation returns the
  smallest non-negative integer not currently assigned and fails when the id space,
  the non-negative \<open>int\<close>s, is used up.
\<close>

definition allocate_id :: "nat list \<Rightarrow> nat option" where
  "allocate_id used =
     (case find (\<lambda>n. n \<notin> set used) [0 ..< Suc (length used)] of
        None \<Rightarrow> None
      | Some n \<Rightarrow> if n < 2 ^ 31 then Some n else None)"

text \<open>
  Modelled from the spec: \<open>get_new_channel\<close>, called by the open functions and defined in
  service.c. Section 4.3: attaching fails if the service is dead; otherwise a channel
  id is allocated and the channel is linked into the channel set of the service. The
  result is the pointer to the new channel, \<open>None\<close> for \<open>NULL\<close>.
\<close>

definition get_new_channel :: "service \<Rightarrow> (nat \<times> service) option" where
  "get_new_channel svc =
     (if is_service_canceled svc then None
      else case allocate_id (map c_id (s_channels svc)) of
             None \<Rightarrow> None
           | Some n \<Rightarrow>
               Some (n, svc\<lparr>s_channels := s_channels svc @
                              [\<lparr>c_id = n, c_events = 0, c_flags = 0, c_context = 0\<rparr>]\<rparr>))"

text \<open>
  Modelled from the spec: \<open>remove_channel\<close>, called by \<open>channel_release\<close> and defined in
  service.c. Section 4.3: detaching removes the channel from the channel set and
  releases its id; section 4.4: a message of the channel that is still active becomes
  detached, that is, it has no owning channel any more.
\<close>

definition remove_channel :: "nat \<Rightarrow> service \<Rightarrow> service" where
  "remove_channel c svc =
     svc\<lparr>s_channels := filter (\<lambda>ch. c_id ch \<noteq> c) (s_channels svc),
         s_active := map (\<lambda>m. if m_channel m = Some c then m\<lparr>m_channel := None\<rparr> else m)
                         (s_active svc)\<rparr>"

definition channel_ids :: "service \<Rightarrow> nat set" where
  "channel_ids svc = c_id ` set (s_channels svc)"

subsection \<open>The ioctl interface: structures and command numbers\<close>

text \<open>
  The parameter structures and the command numbers are declared in servicefs_ioctl.h
  and include/linux/servicefs.h, which are not among the sources. The structures are
  given the fields that file.c reads; the command numbers, the highest command number
  and the two operation codes of the open and close notifications are parameters.
\<close>

record servicefs_set_channel_context_struct =
  scc_cid :: c_int
  scc_ctx :: uptr

record servicefs_msg_rwvec_struct =
  rwv_msgid :: c_int
  rwv_vec :: uptr
  rwv_len :: size_t

record servicefs_msg_seek_struct =
  sk_msgid :: c_int
  sk_offset :: c_long
  sk_whence :: c_int

record servicefs_msg_busv_struct =
  bv_dst_msgid :: c_int
  bv_dst_offset :: c_long
  bv_src_msgid :: c_int
  bv_src_offset :: c_long
  bv_len :: size_t

record servicefs_msg_reply_struct =
  rp_msgid :: c_int
  rp_retcode :: ssize_t

record servicefs_mod_channel_events_struct =
  mce_cid :: c_int
  mce_clr :: c_int
  mce_set :: c_int

record servicefs_msg_push_fd_struct =
  pf_msgid :: c_int
  pf_pushfd :: c_uint

record servicefs_msg_get_fd_struct =
  gf_msgid :: c_int
  gf_index :: c_uint

record servicefs_push_channel_struct =
  pc_svcfd :: c_int
  pc_msgid :: c_int
  pc_flags :: c_int
  pc_cid :: uptr
  pc_ctx :: uptr

record servicefs_check_channel_struct =
  cc_svcfd :: c_int
  cc_msgid :: c_int
  cc_index :: c_int
  cc_cid :: uptr
  cc_ctx :: uptr

record servicefs_msg_sendv_struct =
  sp_op :: c_int
  sp_svec :: uptr
  sp_scnt :: size_t
  sp_rvec :: uptr
  sp_rcnt :: size_t
  sp_fds :: uptr
  sp_fdcnt :: size_t

record servicefs_msg_send_impulse_struct =
  ip_op :: c_int
  ip_buf :: uptr
  ip_len :: size_t

text \<open>
  User memory, as \<open>copy_from_user\<close> sees it: for each structure a reader that gives
  the structure stored at a user address, or \<open>None\<close> when the copy faults.
\<close>

record umem =
  get_set_channel_context :: "uptr \<Rightarrow> servicefs_set_channel_context_struct option"
  get_rwvec :: "uptr \<Rightarrow> servicefs_msg_rwvec_struct option"
  get_seek :: "uptr \<Rightarrow> servicefs_msg_seek_struct option"
  get_busv :: "uptr \<Rightarrow> servicefs_msg_busv_struct option"
  get_reply :: "uptr \<Rightarrow> servicefs_msg_reply_struct option"
  get_mod_channel_events :: "uptr \<Rightarrow> servicefs_mod_channel_events_struct option"
  get_push_fd :: "uptr \<Rightarrow> servicefs_msg_push_fd_struct option"
  get_get_fd :: "uptr \<Rightarrow> servicefs_msg_get_fd_struct option"
  get_push_channel :: "uptr \<Rightarrow> servicefs_push_channel_struct option"
  get_check_channel :: "uptr \<Rightarrow> servicefs_check_channel_struct option"
  get_sendv :: "uptr \<Rightarrow> servicefs_msg_sendv_struct option"
  get_send_impulse :: "uptr \<Rightarrow> servicefs_msg_send_impulse_struct option"
  get_ints :: "uptr \<Rightarrow> size_t \<Rightarrow> c_int list option"

record abi =
  SERVICEFS_SET_SERVICE_CONTEXT :: c_uint
  SERVICEFS_SET_CHANNEL_CONTEXT :: c_uint
  SERVICEFS_MSG_RECV :: c_uint
  SERVICEFS_MSG_READV :: c_uint
  SERVICEFS_MSG_WRITEV :: c_uint
  SERVICEFS_MSG_SEEK :: c_uint
  SERVICEFS_MSG_BUSV :: c_uint
  SERVICEFS_MSG_REPLY :: c_uint
  SERVICEFS_MSG_REPLY_FD :: c_uint
  SERVICEFS_MOD_CHANNEL_EVENTS :: c_uint
  SERVICEFS_MSG_PUSH_FD :: c_uint
  SERVICEFS_MSG_GET_FD :: c_uint
  SERVICEFS_PUSH_CHANNEL :: c_uint
  SERVICEFS_CLOSE_CHANNEL :: c_uint
  SERVICEFS_CHECK_CHANNEL :: c_uint
  SERVICEFS_CANCEL_SERVICE :: c_uint
  SERVICEFS_MSG_SENDV :: c_uint
  SERVICEFS_MSG_SEND_IMPULSE :: c_uint
  SERVICEFS_IOCTL_MAX_NR :: c_uint
  SERVICEFS_OP_UNIX_OPEN :: c_int
  SERVICEFS_OP_UNIX_CLOSE :: c_int

definition service_cmds :: "abi \<Rightarrow> c_uint list" where
  "service_cmds k =
     [SERVICEFS_SET_SERVICE_CONTEXT k, SERVICEFS_SET_CHANNEL_CONTEXT k, SERVICEFS_MSG_RECV k,
      SERVICEFS_MSG_READV k, SERVICEFS_MSG_WRITEV k, SERVICEFS_MSG_SEEK k,
      SERVICEFS_MSG_BUSV k, SERVICEFS_MSG_REPLY k, SERVICEFS_MSG_REPLY_FD k,
      SERVICEFS_MOD_CHANNEL_EVENTS k, SERVICEFS_MSG_PUSH_FD k, SERVICEFS_MSG_GET_FD k,
      SERVICEFS_PUSH_CHANNEL k, SERVICEFS_CLOSE_CHANNEL k, SERVICEFS_CHECK_CHANNEL k,
      SERVICEFS_CANCEL_SERVICE k]"

definition channel_cmds :: "abi \<Rightarrow> c_uint list" where
  "channel_cmds k = [SERVICEFS_MSG_SENDV k, SERVICEFS_MSG_SEND_IMPULSE k]"

text \<open>
  What the C compiler and the two tests at the head of each dispatcher ask of the
  command numbers: the case labels of a switch are distinct, and every command has the
  type character \<open>'x'\<close> (0x78) and a number up to the highest one.
\<close>

definition abi_ok :: "abi \<Rightarrow> bool" where
  "abi_ok k =
     (distinct (service_cmds k) \<and> distinct (channel_cmds k) \<and>
      list_all (\<lambda>c. IOC_TYPE c = 0x78 \<and> IOC_NR c \<le> SERVICEFS_IOCTL_MAX_NR k)
        (service_cmds k @ channel_cmds k))"

subsection \<open>Opening and releasing files of a service inode\<close>

text \<open>
  The state of these functions is the inode, the file being opened or released, and
  the trace. \<open>atomic_add_return\<close> is the wrapping addition on the 32-bit counter.
\<close>

definition initial_open ::
  "abi \<Rightarrow> env \<Rightarrow> inode \<Rightarrow> struct_file \<Rightarrow> trace \<Rightarrow> c_int \<times> inode \<times> struct_file \<times> trace" where
  "initial_open k e ino filp tr =
     (case i_private ino of
        None \<Rightarrow> (- EINVAL, ino, filp, tr)
      | Some svc0 \<Rightarrow>
          let count = s_count svc0 + 1;
              svc = svc0\<lparr>s_count := count\<rparr>
          in if count = 1 then
               (0, ino\<lparr>i_private := Some (svc\<lparr>s_filp := Some (f_addr filp)\<rparr>)\<rparr>,
                filp\<lparr>private_data := PService, f_op := service_file_operations\<rparr>, tr)
             else
               (case get_new_channel svc of
                  None \<Rightarrow> (- EINVAL, ino\<lparr>i_private := Some svc\<rparr>, filp, tr)
                | Some (c, svc1) \<Rightarrow>
                    let filp1 = filp\<lparr>private_data := PChannel c,
                                     f_op := channel_file_operations\<rparr>
                    in if s_flags svc1 AND SERVICE_FLAGS_OPEN_NOTIFY \<noteq> 0 then
                         (case servicefs_msg_sendv_uninterruptible e c (SERVICEFS_OP_UNIX_OPEN k)
                                 None 0 None 0 None 0 (svc1, tr) of
                            (r, svc2, tr2) \<Rightarrow>
                              (ucast r, ino\<lparr>i_private := Some svc2\<rparr>, filp1, tr2))
                       else (0, ino\<lparr>i_private := Some svc1\<rparr>, filp1, tr)))"

definition create_channel_open ::
  "inode \<Rightarrow> struct_file \<Rightarrow> trace \<Rightarrow> (c_int \<times> inode \<times> struct_file \<times> trace) kres" where
  "create_channel_open ino filp tr =
     (case i_private ino of
        None \<Rightarrow> Ok (- EINVAL, ino, filp, tr)
      | Some svc0 \<Rightarrow>
          let count = s_count svc0 + 1;
              svc = svc0\<lparr>s_count := count\<rparr>
          in if count <s 1 then Bug
             else
               (case get_new_channel svc of
                  None \<Rightarrow> Ok (- EINVAL, ino\<lparr>i_private := Some svc\<rparr>, filp, tr)
                | Some (c, svc1) \<Rightarrow>
                    Ok (0, ino\<lparr>i_private := Some svc1\<rparr>,
                        filp\<lparr>private_data := PChannel c, f_op := initial_file_operations\<rparr>,
                        tr)))"

definition servicefs_complete_channel_setup :: "struct_file \<Rightarrow> struct_file kres" where
  "servicefs_complete_channel_setup filp =
     (if f_op filp \<noteq> initial_file_operations then Bug
      else Ok (filp\<lparr>f_op := channel_file_operations\<rparr>))"

definition initial_release ::
  "inode \<Rightarrow> struct_file \<Rightarrow> trace \<Rightarrow> c_int \<times> inode \<times> struct_file \<times> trace" where
  "initial_release ino filp tr =
     (case i_private ino of
        None \<Rightarrow> (- EINVAL, ino, filp, tr)
      | Some svc \<Rightarrow> (0, ino\<lparr>i_private := Some (svc\<lparr>s_count := s_count svc - 1\<rparr>)\<rparr>, filp, tr))"

text \<open>
  \<open>servicefs_create_channel\<close>: \<open>alloc_file\<close> gives a new file on the \<open>initial\<close> file
  operations or an error pointer; \<open>new_file\<close> is that result. The reference counts of
  the path (\<open>path_get\<close>, \<open>put_filp\<close>) are not modelled.
\<close>

definition servicefs_create_channel ::
  "inode \<Rightarrow> c_long + nat \<Rightarrow> c_uint \<Rightarrow> trace \<Rightarrow> ((c_long + struct_file) \<times> inode \<times> trace) kres" where
  "servicefs_create_channel ino new_file flags tr =
     (case new_file of
        Inl err \<Rightarrow> Ok (Inl err, ino, tr)
      | Inr addr \<Rightarrow>
          let file0 = \<lparr>f_addr = addr, private_data = PNull, f_op = initial_file_operations,
                       f_flags = O_RDONLY OR (flags AND (O_NONBLOCK OR O_CLOEXEC))\<rparr>
          in case create_channel_open ino file0 tr of
               Bug \<Rightarrow> Bug
             | Ok (ret, ino1, file1, tr1) \<Rightarrow>
                 if ret <s 0 then Ok (Inl (scast ret), ino1, tr1)
                 else Ok (Inr file1, ino1, tr1))"

definition channel_release ::
  "abi \<Rightarrow> env \<Rightarrow> inode \<Rightarrow> struct_file \<Rightarrow> trace \<Rightarrow> (c_int \<times> inode \<times> struct_file \<times> trace) kres" where
  "channel_release k e ino filp tr =
     (case i_private ino of
        None \<Rightarrow> Ok (- EINVAL, ino, filp, tr)
      | Some svc0 \<Rightarrow>
          (case private_data filp of
             PChannel c \<Rightarrow>
               let svc = svc0\<lparr>s_count := s_count svc0 - 1\<rparr>;
                   st = (if s_flags svc AND SERVICE_FLAGS_CLOSE_NOTIFY \<noteq> 0 then
                           snd (servicefs_msg_sendv_uninterruptible e c (SERVICEFS_OP_UNIX_CLOSE k)
                                  None 0 None 0 None 0 (svc, tr))
                         else (svc, tr))
               in Ok (0, ino\<lparr>i_private := Some (remove_channel c (fst st))\<rparr>, filp, snd st)
           | _ \<Rightarrow> Bug))"

definition service_release ::
  "env \<Rightarrow> inode \<Rightarrow> struct_file \<Rightarrow> trace \<Rightarrow> c_int \<times> inode \<times> struct_file \<times> trace" where
  "service_release e ino filp tr =
     (case i_private ino of
        None \<Rightarrow> (- EINVAL, ino, filp, tr)
      | Some svc0 \<Rightarrow>
          let svc = svc0\<lparr>s_count := s_count svc0 - 1\<rparr>
          in (0, ino\<lparr>i_private := Some (snd (service_handler e Cancel_service svc))\<rparr>,
              filp, tr))"

definition servicefs_get_channel_from_file :: "struct_file \<Rightarrow> pdata" where
  "servicefs_get_channel_from_file filp =
     (if f_op filp \<noteq> channel_file_operations then PNull else private_data filp)"

definition servicefs_get_service_from_file :: "struct_file \<Rightarrow> pdata" where
  "servicefs_get_service_from_file filp =
     (if f_op filp \<noteq> service_file_operations then PNull else private_data filp)"

subsection \<open>Polling\<close>

text \<open>
  \<open>poll_wait\<close> puts the wait queue on the poll table when there is one; the table is
  the list of queues registered so far.
\<close>

datatype wait_queue = S_wqselect | S_wqreceivers | C_waitqueue nat

definition poll_wait :: "wait_queue \<Rightarrow> wait_queue list option \<Rightarrow> wait_queue list option" where
  "poll_wait q wait = (case wait of None \<Rightarrow> None | Some qs \<Rightarrow> Some (qs @ [q]))"

definition service_poll ::
  "struct_file \<Rightarrow> service \<Rightarrow> wait_queue list option \<Rightarrow> (c_uint \<times> wait_queue list option) kres" where
  "service_poll filp svc wait =
     (case private_data filp of
        PService \<Rightarrow>
          let wait1 = poll_wait S_wqselect wait;
              mask = (if s_impulses svc \<noteq> [] \<or> s_messages svc \<noteq> []
                      then POLLIN OR POLLRDNORM else 0)
          in Ok (mask, wait1)
      | _ \<Rightarrow> Bug)"

subsection \<open>The ioctl dispatchers\<close>

text \<open>A service handler's result, stored in the dispatcher's \<open>int ret\<close>.\<close>

definition service_api :: "env \<Rightarrow> service_call \<Rightarrow> service \<Rightarrow> c_int \<times> service" where
  "service_api e call svc = (case service_handler e call svc of (r, svc') \<Rightarrow> (ucast r, svc'))"

definition check_uvector :: "env \<Rightarrow> rw \<Rightarrow> uptr \<Rightarrow> size_t \<Rightarrow> c_int \<times> iov list" where
  "check_uvector e dir vec cnt = (case rw_copy_check_uvector e dir vec cnt of (r, v) \<Rightarrow> (ucast r, v))"

definition service_ioctl ::
  "abi \<Rightarrow> umem \<Rightarrow> env \<Rightarrow> struct_file \<Rightarrow> c_uint \<Rightarrow> c_long \<Rightarrow> service \<Rightarrow> (c_long \<times> service) kres" where
  "service_ioctl k um e filp cmd arg svc =
     (case private_data filp of
        PService \<Rightarrow>
          if IOC_TYPE cmd \<noteq> 0x78 then Ok (- ENOTTY, svc)
          else if IOC_NR cmd > SERVICEFS_IOCTL_MAX_NR k then Ok (- ENOTTY, svc)
          else
            let (ret, svc') =
              (if cmd = SERVICEFS_SET_SERVICE_CONTEXT k then
                 service_api e (Set_service_context arg) svc
               else if cmd = SERVICEFS_SET_CHANNEL_CONTEXT k then
                 (case get_set_channel_context um arg of
                    None \<Rightarrow> (- EFAULT, svc)
                  | Some p \<Rightarrow> service_api e (Set_channel_context (scc_cid p) (scc_ctx p)) svc)
               else if cmd = SERVICEFS_MSG_RECV k then
                 service_api e
                   (Msg_recv arg (if f_flags filp AND O_NONBLOCK \<noteq> 0 then 0
                                  else MAX_SCHEDULE_TIMEOUT) False) svc
               else if cmd = SERVICEFS_MSG_READV k then
                 (case get_rwvec um arg of
                    None \<Rightarrow> (- EFAULT, svc)
                  | Some p \<Rightarrow>
                      (case check_uvector e WRITE (rwv_vec p) (rwv_len p) of
                         (r, vec) \<Rightarrow>
                           if r <s 0 then (r, svc)
                           else service_api e (Msg_readv (rwv_msgid p) vec (rwv_len p)) svc))
               else if cmd = SERVICEFS_MSG_WRITEV k then
                 (case get_rwvec um arg of
                    None \<Rightarrow> (- EFAULT, svc)
                  | Some p \<Rightarrow>
                      (case check_uvector e READ (rwv_vec p) (rwv_len p) of
                         (r, vec) \<Rightarrow>
                           if r <s 0 then (r, svc)
                           else service_api e (Msg_writev (rwv_msgid p) vec (rwv_len p)) svc))
               else if cmd = SERVICEFS_MSG_SEEK k then
                 (case get_seek um arg of
                    None \<Rightarrow> (- EFAULT, svc)
                  | Some p \<Rightarrow>
                      service_api e (Msg_seek (sk_msgid p) (sk_offset p) (sk_whence p)) svc)
               else if cmd = SERVICEFS_MSG_BUSV k then
                 (case get_busv um arg of
                    None \<Rightarrow> (- EFAULT, svc)
                  | Some p \<Rightarrow>
                      service_api e
                        (Msg_busv (bv_dst_msgid p) (bv_dst_offset p) (bv_src_msgid p)
                           (bv_src_offset p) (bv_len p)) svc)
               else if cmd = SERVICEFS_MSG_REPLY k then
                 (case get_reply um arg of
                    None \<Rightarrow> (- EFAULT, svc)
                  | Some p \<Rightarrow> service_api e (Msg_reply (rp_msgid p) (rp_retcode p)) svc)
               else if cmd = SERVICEFS_MSG_REPLY_FD k then
                 (case get_reply um arg of
                    None \<Rightarrow> (- EFAULT, svc)
                  | Some p \<Rightarrow>
                      service_api e (Msg_reply_fd (rp_msgid p) (ucast (rp_retcode p))) svc)
               else if cmd = SERVICEFS_MOD_CHANNEL_EVENTS k then
                 (case get_mod_channel_events um arg of
                    None \<Rightarrow> (- EFAULT, svc)
                  | Some p \<Rightarrow>
                      service_api e (Mod_channel_events (mce_cid p) (mce_clr p) (mce_set p)) svc)
               else if cmd = SERVICEFS_MSG_PUSH_FD k then
                 (case get_push_fd um arg of
                    None \<Rightarrow> (- EFAULT, svc)
                  | Some p \<Rightarrow> service_api e (Msg_push_fd (pf_msgid p) (pf_pushfd p)) svc)
               else if cmd = SERVICEFS_MSG_GET_FD k then
                 (case get_get_fd um arg of
                    None \<Rightarrow> (- EFAULT, svc)
                  | Some p \<Rightarrow> service_api e (Msg_get_fd (gf_msgid p) (gf_index p)) svc)
               else if cmd = SERVICEFS_PUSH_CHANNEL k then
                 (case get_push_channel um arg of
                    None \<Rightarrow> (- EFAULT, svc)
                  | Some p \<Rightarrow>
                      service_api e
                        (Push_channel (pc_svcfd p) (pc_msgid p) (pc_flags p) (pc_cid p)
                           (pc_ctx p) False) svc)
               else if cmd = SERVICEFS_CLOSE_CHANNEL k then
                 service_api e (Close_channel (ucast arg)) svc
               else if cmd = SERVICEFS_CHECK_CHANNEL k then
                 (case get_check_channel um arg of
                    None \<Rightarrow> (- EFAULT, svc)
                  | Some p \<Rightarrow>
                      service_api e
                        (Check_channel (cc_svcfd p) (cc_msgid p) (cc_index p) (cc_cid p)
                           (cc_ctx p) False) svc)
               else if cmd = SERVICEFS_CANCEL_SERVICE k then
                 service_api e Cancel_service svc
               else (- ENOTTY, svc))
            in Ok (scast ret, svc')
      | _ \<Rightarrow> Bug)"

text \<open>
  \<open>channel_ioctl\<close>. The file descriptor array is copied in only after its length
  passed the \<open>UIO_MAXIOV\<close> test and, above \<open>UIO_FASTIOV\<close>, the allocation succeeded.
\<close>

definition copy_fds :: "umem \<Rightarrow> env \<Rightarrow> uptr \<Rightarrow> size_t \<Rightarrow> c_int + c_int list option" where
  "copy_fds um e fds fdcnt =
     (if fds \<noteq> 0 then
        if fdcnt > UIO_MAXIOV then Inl (- EINVAL)
        else if fdcnt > UIO_FASTIOV \<and> \<not> kmalloc_ok e (4 * fdcnt) then Inl (- ENOMEM)
        else (case get_ints um fds fdcnt of
                None \<Rightarrow> Inl (- EFAULT)
              | Some xs \<Rightarrow> Inr (Some xs))
      else Inr None)"

definition copy_vec :: "env \<Rightarrow> rw \<Rightarrow> uptr \<Rightarrow> size_t \<Rightarrow> c_int + iov list option" where
  "copy_vec e dir vec cnt =
     (if vec \<noteq> 0 then
        (case check_uvector e dir vec cnt of
           (r, v) \<Rightarrow> if r <s 0 then Inl r else Inr (Some v))
      else Inr None)"

definition channel_ioctl ::
  "abi \<Rightarrow> umem \<Rightarrow> env \<Rightarrow> struct_file \<Rightarrow> c_uint \<Rightarrow> c_long \<Rightarrow> service \<times> trace \<Rightarrow>
   (c_long \<times> service \<times> trace) kres" where
  "channel_ioctl k um e filp cmd arg st =
     (case private_data filp of
        PChannel c \<Rightarrow>
          if IOC_TYPE cmd \<noteq> 0x78 then Ok (- ENOTTY, st)
          else if IOC_NR cmd > SERVICEFS_IOCTL_MAX_NR k then Ok (- ENOTTY, st)
          else
            let (ret, st') =
              (if cmd = SERVICEFS_MSG_SENDV k then
                 (case get_sendv um arg of
                    None \<Rightarrow> (- EFAULT, st)
                  | Some p \<Rightarrow>
                      if sp_op p = SERVICEFS_OP_UNIX_OPEN k
                         \<or> sp_op p = SERVICEFS_OP_UNIX_CLOSE k
                         \<or> (sp_svec p = 0 \<and> sp_scnt p \<noteq> 0)
                         \<or> (sp_rvec p = 0 \<and> sp_rcnt p \<noteq> 0)
                         \<or> (sp_fds p = 0 \<and> sp_fdcnt p \<noteq> 0)
                      then (- EINVAL, st)
                      else
                        (case copy_vec e READ (sp_svec p) (sp_scnt p) of
                           Inl r \<Rightarrow> (r, st)
                         | Inr svec \<Rightarrow>
                             (case copy_vec e WRITE (sp_rvec p) (sp_rcnt p) of
                                Inl r \<Rightarrow> (r, st)
                              | Inr rvec \<Rightarrow>
                                  (case copy_fds um e (sp_fds p) (sp_fdcnt p) of
                                     Inl r \<Rightarrow> (r, st)
                                   | Inr fds \<Rightarrow>
                                       (case servicefs_msg_sendv_interruptible e c (sp_op p)
                                               svec (sp_scnt p) rvec (sp_rcnt p)
                                               fds (sp_fdcnt p) st of
                                          (r, st1) \<Rightarrow> (ucast r, st1))))))
               else if cmd = SERVICEFS_MSG_SEND_IMPULSE k then
                 (case get_send_impulse um arg of
                    None \<Rightarrow> (- EFAULT, st)
                  | Some p \<Rightarrow>
                      if ip_op p = SERVICEFS_OP_UNIX_OPEN k
                         \<or> ip_op p = SERVICEFS_OP_UNIX_CLOSE k
                         \<or> (ip_buf p = 0 \<and> ip_len p \<noteq> 0)
                      then (- EINVAL, st)
                      else
                        servicefs_msg_send_impulse e
                          \<lparr>ic_channel = c, ic_op = ip_op p, ic_buf = ip_buf p,
                           ic_len = ip_len p\<rparr> st)
               else (- ENOTTY, st))
            in Ok (scast ret, st')
      | _ \<Rightarrow> Bug)"

subsection \<open>The file operations behind a file\<close>

text \<open>
  The three tables of file operations at the head of file.c: a file on
  \<open>service_file_operations\<close> answers ioctls with \<open>service_ioctl\<close>, one on
  \<open>channel_file_operations\<close> with \<open>channel_ioctl\<close>; \<open>initial_file_operations\<close> has no
  ioctl entry.
\<close>

datatype ioctl_entry = No_ioctl | Service_ioctl | Channel_ioctl

definition unlocked_ioctl :: "file_operations \<Rightarrow> ioctl_entry" where
  "unlocked_ioctl ops =
     (case ops of
        initial_file_operations \<Rightarrow> No_ioctl
      | service_file_operations \<Rightarrow> Service_ioctl
      | channel_file_operations \<Rightarrow> Channel_ioctl)"

subsection \<open>Concrete inputs\<close>

text \<open>
  Inputs on which the model is evaluated. \<open>abi0\<close> numbers the commands \<open>_IO('x', n)\<close>;
  \<open>env0\<close> lets every handler return 0, \<open>env_fail\<close> lets every send fail; \<open>um0\<close> is user
  memory in which every copy faults.
\<close>

definition abi0 :: abi where
  "abi0 =
     \<lparr>SERVICEFS_SET_SERVICE_CONTEXT = 0x7800, SERVICEFS_SET_CHANNEL_CONTEXT = 0x7801,
      SERVICEFS_MSG_RECV = 0x7802, SERVICEFS_MSG_READV = 0x7803,
      SERVICEFS_MSG_WRITEV = 0x7804, SERVICEFS_MSG_SEEK = 0x7805,
      SERVICEFS_MSG_BUSV = 0x7806, SERVICEFS_MSG_REPLY = 0x7807,
      SERVICEFS_MSG_REPLY_FD = 0x7808, SERVICEFS_MOD_CHANNEL_EVENTS = 0x7809,
      SERVICEFS_MSG_PUSH_FD = 0x780A, SERVICEFS_MSG_GET_FD = 0x780B,
      SERVICEFS_PUSH_CHANNEL = 0x780C, SERVICEFS_CLOSE_CHANNEL = 0x780D,
      SERVICEFS_CHECK_CHANNEL = 0x780E, SERVICEFS_CANCEL_SERVICE = 0x780F,
      SERVICEFS_MSG_SENDV = 0x7810, SERVICEFS_MSG_SEND_IMPULSE = 0x7811,
      SERVICEFS_IOCTL_MAX_NR = 0x11,
      SERVICEFS_OP_UNIX_OPEN = 0, SERVICEFS_OP_UNIX_CLOSE = 1\<rparr>"

definition env0 :: env where
  "env0 =
     \<lparr>sendv_body = (\<lambda>a svc. (0, svc)),
      send_impulse_body = (\<lambda>a svc. (0, svc)),
      service_handler = (\<lambda>call svc. (0, svc)),
      rw_copy_check_uvector = (\<lambda>dir vec cnt. (0, [])),
      kmalloc_ok = (\<lambda>n. True)\<rparr>"

definition env_fail :: env where
  "env_fail =
     \<lparr>sendv_body = (\<lambda>a svc. (- ENOMEM, svc)),
      send_impulse_body = (\<lambda>a svc. (- ENOMEM, svc)),
      service_handler = (\<lambda>call svc. (0, svc)),
      rw_copy_check_uvector = (\<lambda>dir vec cnt. (0, [])),
      kmalloc_ok = (\<lambda>n. False)\<rparr>"

definition um0 :: umem where
  "um0 =
     \<lparr>get_set_channel_context = (\<lambda>a. None), get_rwvec = (\<lambda>a. None),
      get_seek = (\<lambda>a. None), get_busv = (\<lambda>a. None), get_reply = (\<lambda>a. None),
      get_mod_channel_events = (\<lambda>a. None), get_push_fd = (\<lambda>a. None),
      get_get_fd = (\<lambda>a. None), get_push_channel = (\<lambda>a. None),
      get_check_channel = (\<lambda>a. None), get_sendv = (\<lambda>a. None),
      get_send_impulse = (\<lambda>a. None), get_ints = (\<lambda>a n. None)\<rparr>"

text \<open>
  A live service with the default flags whose own file is open, the same service with
  one channel attached, and the same service after it was canceled.
\<close>

definition service0 :: service where
  "service0 =
     \<lparr>s_count = 1, s_channels = [], s_impulses = [], s_messages = [], s_active = [],
      s_flags = SERVICE_FLAGS_DEFAULT, s_context = 0, s_filp = Some 1\<rparr>"

definition service1 :: service where
  "service1 = service0\<lparr>s_count := 2,
               s_channels := [\<lparr>c_id = 0, c_events = 0, c_flags = 0, c_context = 0\<rparr>]\<rparr>"

definition service_dead :: service where
  "service_dead = service0\<lparr>s_flags := SERVICE_FLAGS_DEFAULT OR SERVICE_FLAGS_CANCELED\<rparr>"

definition filp0 :: struct_file where
  "filp0 = \<lparr>f_addr = 2, private_data = PNull, f_op = initial_file_operations, f_flags = 0\<rparr>"

definition imp0 :: impulse where
  "imp0 =
     \<lparr>i_pid = 100, i_tid = 100, i_euid = 0, i_egid = 0, i_channel = 0, i_op = 9,
      i_data = [0, 0, 0, 0], i_len = 8\<rparr>"

section \<open>Properties\<close>

subsection \<open>Facts shared by the proofs\<close>

lemma scast_neg_errno:
  "scast (- EINVAL :: c_int) = (- EINVAL :: c_long)"
  "scast (- ENOTTY :: c_int) = (- ENOTTY :: c_long)"
  "scast (- EFAULT :: c_int) = (- EFAULT :: c_long)"
  by (simp_all add: EINVAL_def ENOTTY_def EFAULT_def)

lemma flag_values:
  "SERVICE_FLAGS_CANCELED = 1" "SERVICE_FLAGS_OPEN_NOTIFY = 2" "SERVICE_FLAGS_CLOSE_NOTIFY = 4"
  "SERVICE_FLAGS_DEFAULT = 6"
  by (simp_all add: SERVICE_FLAGS_CANCELED_def SERVICE_FLAGS_OPEN_NOTIFY_def
      SERVICE_FLAGS_CLOSE_NOTIFY_def SERVICE_FLAGS_DEFAULT_def)

lemma abi0_ok: "abi_ok abi0"
  by (simp add: abi_ok_def abi0_def service_cmds_def channel_cmds_def IOC_TYPE_def IOC_NR_def)

lemma abi_ok_sendv:
  "abi_ok k \<Longrightarrow> IOC_TYPE (SERVICEFS_MSG_SENDV k) = 0x78 \<and>
     \<not> IOC_NR (SERVICEFS_MSG_SENDV k) > SERVICEFS_IOCTL_MAX_NR k"
  by (simp add: abi_ok_def channel_cmds_def not_less)

lemma abi_ok_send_impulse:
  "abi_ok k \<Longrightarrow> IOC_TYPE (SERVICEFS_MSG_SEND_IMPULSE k) = 0x78 \<and>
     \<not> IOC_NR (SERVICEFS_MSG_SEND_IMPULSE k) > SERVICEFS_IOCTL_MAX_NR k \<and>
     SERVICEFS_MSG_SEND_IMPULSE k \<noteq> SERVICEFS_MSG_SENDV k"
  by (auto simp add: abi_ok_def channel_cmds_def not_less)

text \<open>
  The test at the head of the send-transaction case of \<open>channel_ioctl\<close>: once the
  parameters are read and the test holds, the call ends with \<open>-EINVAL\<close> and the state
  it was given.
\<close>

lemma channel_ioctl_sendv_rejected:
  assumes "abi_ok k" and "private_data filp = PChannel c" and "get_sendv um arg = Some p"
    and "sp_op p = SERVICEFS_OP_UNIX_OPEN k \<or> sp_op p = SERVICEFS_OP_UNIX_CLOSE k
      \<or> (sp_svec p = 0 \<and> sp_scnt p \<noteq> 0)
      \<or> (sp_rvec p = 0 \<and> sp_rcnt p \<noteq> 0)
      \<or> (sp_fds p = 0 \<and> sp_fdcnt p \<noteq> 0)"
  shows "channel_ioctl k um e filp (SERVICEFS_MSG_SENDV k) arg st = Ok (- EINVAL, st)"
  using abi_ok_sendv [OF assms(1)] assms(2,3,4)
  by (simp add: channel_ioctl_def scast_neg_errno)

lemma channel_ioctl_impulse_rejected:
  assumes "abi_ok k" and "private_data filp = PChannel c"
    and "get_send_impulse um arg = Some q"
    and "ip_op q = SERVICEFS_OP_UNIX_OPEN k \<or> ip_op q = SERVICEFS_OP_UNIX_CLOSE k
      \<or> (ip_buf q = 0 \<and> ip_len q \<noteq> 0)"
  shows "channel_ioctl k um e filp (SERVICEFS_MSG_SEND_IMPULSE k) arg st = Ok (- EINVAL, st)"
  using abi_ok_send_impulse [OF assms(1)] assms(2,3,4)
  by (simp add: channel_ioctl_def scast_neg_errno)

lemma service_ioctl_unknown:
  assumes "cmd \<notin> set (service_cmds k)" and "private_data filp = PService"
  shows "service_ioctl k um e filp cmd arg svc = Ok (- ENOTTY, svc)"
  using assms by (simp add: service_ioctl_def service_cmds_def scast_neg_errno)

lemma channel_ioctl_unknown:
  assumes "cmd \<notin> set (channel_cmds k)" and "private_data filp = PChannel c"
  shows "channel_ioctl k um e filp cmd arg st = Ok (- ENOTTY, st)"
  using assms by (simp add: channel_ioctl_def channel_cmds_def scast_neg_errno)

lemma allocate_id_fresh: "allocate_id used = Some n \<Longrightarrow> n \<notin> set used"
  by (auto simp: allocate_id_def find_Some_iff split: option.splits if_splits)

lemma get_new_channel_links:
  assumes "get_new_channel svc = Some (c, svc')"
  shows "c \<notin> channel_ids svc \<and> channel_ids svc' = insert c (channel_ids svc)
         \<and> s_flags svc' = s_flags svc \<and> s_count svc' = s_count svc"
  using assms
  by (auto simp: get_new_channel_def channel_ids_def split: if_splits option.splits
      dest!: allocate_id_fresh)

lemma get_new_channel_dead: "is_service_canceled svc \<Longrightarrow> get_new_channel svc = None"
  by (simp add: get_new_channel_def)

lemma canceled_count: "is_service_canceled (svc\<lparr>s_count := n\<rparr>) = is_service_canceled svc"
  by (simp add: is_service_canceled_def)

lemma remove_channel_ids: "c \<notin> channel_ids (remove_channel c svc)"
  by (auto simp: channel_ids_def remove_channel_def)

lemma pollmask_nonzero: "POLLIN OR POLLRDNORM \<noteq> 0"
  by (simp add: POLLIN_def POLLRDNORM_def)

lemma create_channel_open_trace:
  "create_channel_open ino filp tr = Ok (r, ino', filp', tr') \<Longrightarrow> tr' = tr"
  by (auto simp: create_channel_open_def Let_def split: option.splits if_splits)

text \<open>Evaluations of the channel allocator on the concrete services.\<close>

lemma get_new_channel_service0:
  "get_new_channel service0 = Some (0, service0\<lparr>s_channels :=
      [\<lparr>c_id = 0, c_events = 0, c_flags = 0, c_context = 0\<rparr>]\<rparr>)"
  by (simp add: get_new_channel_def allocate_id_def is_service_canceled_def service0_def
      flag_values)

lemma get_new_channel_service0_count:
  "get_new_channel (service0\<lparr>s_count := 2\<rparr>) = Some (0, service1)"
  by (simp add: get_new_channel_def allocate_id_def is_service_canceled_def service0_def
      service1_def flag_values)

lemma service_dead_canceled: "is_service_canceled service_dead"
  by (simp add: is_service_canceled_def service_dead_def service0_def flag_values)

subsection \<open>Reserved operation codes\<close>

text \<open>
  Claim C1. A send-transaction call and a send-impulse call whose operation code is
  one of the two codes of the attach and detach notifications
  (\<open>SERVICEFS_OP_UNIX_OPEN\<close>, \<open>SERVICEFS_OP_UNIX_CLOSE\<close>) fail with \<open>-EINVAL\<close>, and
  nothing is created or queued: the service and the trace of sends come back as they
  were, whatever the send handlers would have done. The call is the ioctl on a channel
  file whose parameter structure was read from user memory.
\<close>

theorem reserved_op_rejected:
  assumes "abi_ok k" and "private_data filp = PChannel c"
    and "opc = SERVICEFS_OP_UNIX_OPEN k \<or> opc = SERVICEFS_OP_UNIX_CLOSE k"
  shows "(get_sendv um arg = Some p \<and> sp_op p = opc \<longrightarrow>
            channel_ioctl k um e filp (SERVICEFS_MSG_SENDV k) arg (svc, tr)
              = Ok (- EINVAL, svc, tr))
       \<and> (get_send_impulse um arg = Some q \<and> ip_op q = opc \<longrightarrow>
            channel_ioctl k um e filp (SERVICEFS_MSG_SEND_IMPULSE k) arg (svc, tr)
              = Ok (- EINVAL, svc, tr))"
proof (intro conjI impI)
  assume "get_sendv um arg = Some p \<and> sp_op p = opc"
  then show "channel_ioctl k um e filp (SERVICEFS_MSG_SENDV k) arg (svc, tr)
               = Ok (- EINVAL, svc, tr)"
    using assms by (intro channel_ioctl_sendv_rejected) auto
next
  assume "get_send_impulse um arg = Some q \<and> ip_op q = opc"
  then show "channel_ioctl k um e filp (SERVICEFS_MSG_SEND_IMPULSE k) arg (svc, tr)
               = Ok (- EINVAL, svc, tr)"
    using assms by (intro channel_ioctl_impulse_rejected) auto
qed

text \<open>
  The theorem at a concrete call: a transaction with the open code (0 in \<open>abi0\<close>) and
  an impulse with the close code (1), each with well-formed arrays, on a channel of
  \<open>service1\<close>.
\<close>

theorem reserved_op_rejected_witness:
  "abi_ok abi0
   \<and> channel_ioctl abi0
        (um0\<lparr>get_sendv := \<lambda>a. Some \<lparr>sp_op = 0, sp_svec = 0, sp_scnt = 0, sp_rvec = 0,
                                      sp_rcnt = 0, sp_fds = 0, sp_fdcnt = 0\<rparr>\<rparr>)
        env0 (filp0\<lparr>private_data := PChannel 0\<rparr>) (SERVICEFS_MSG_SENDV abi0) 64 (service1, [])
      = Ok (- EINVAL, service1, [])
   \<and> channel_ioctl abi0
        (um0\<lparr>get_send_impulse := \<lambda>a. Some \<lparr>ip_op = 1, ip_buf = 0, ip_len = 0\<rparr>\<rparr>)
        env0 (filp0\<lparr>private_data := PChannel 0\<rparr>) (SERVICEFS_MSG_SEND_IMPULSE abi0) 64
        (service1, [])
      = Ok (- EINVAL, service1, [])"
proof -
  have c: "private_data (filp0\<lparr>private_data := PChannel 0\<rparr>) = PChannel 0" by simp
  have o: "(1 :: c_int) = SERVICEFS_OP_UNIX_OPEN abi0 \<or> (1 :: c_int) = SERVICEFS_OP_UNIX_CLOSE abi0"
    by (simp add: abi0_def)
  have o0: "(0 :: c_int) = SERVICEFS_OP_UNIX_OPEN abi0 \<or> (0 :: c_int) = SERVICEFS_OP_UNIX_CLOSE abi0"
    by (simp add: abi0_def)
  show ?thesis
    using abi0_ok
      reserved_op_rejected [OF abi0_ok c o0,
        of "um0\<lparr>get_sendv := \<lambda>a. Some \<lparr>sp_op = 0, sp_svec = 0, sp_scnt = 0, sp_rvec = 0,
                                      sp_rcnt = 0, sp_fds = 0, sp_fdcnt = 0\<rparr>\<rparr>" 64
           "\<lparr>sp_op = 0, sp_svec = 0, sp_scnt = 0, sp_rvec = 0,
                                      sp_rcnt = 0, sp_fds = 0, sp_fdcnt = 0\<rparr>" env0 service1 "[]"]
      reserved_op_rejected [OF abi0_ok c o,
        of "um0\<lparr>get_send_impulse := \<lambda>a. Some \<lparr>ip_op = 1, ip_buf = 0, ip_len = 0\<rparr>\<rparr>" 64 _
           env0 service1 "[]" "\<lparr>ip_op = 1, ip_buf = 0, ip_len = 0\<rparr>"]
    by simp
qed

subsection \<open>Null arrays\<close>

text \<open>
  Claim C8. A send-transaction call in which the send vector, the receive vector or
  the handle list is a null pointer with a non-zero element count, and a send-impulse
  call whose payload buffer is null with a non-zero length, fail with \<open>-EINVAL\<close>
  before anything is created: the service and the trace of sends come back as they
  were.
\<close>

theorem null_array_rejected:
  assumes "abi_ok k" and "private_data filp = PChannel c"
  shows "(get_sendv um arg = Some p \<and>
            ((sp_svec p = 0 \<and> sp_scnt p \<noteq> 0) \<or> (sp_rvec p = 0 \<and> sp_rcnt p \<noteq> 0)
             \<or> (sp_fds p = 0 \<and> sp_fdcnt p \<noteq> 0)) \<longrightarrow>
            channel_ioctl k um e filp (SERVICEFS_MSG_SENDV k) arg (svc, tr)
              = Ok (- EINVAL, svc, tr))
       \<and> (get_send_impulse um arg = Some q \<and> ip_buf q = 0 \<and> ip_len q \<noteq> 0 \<longrightarrow>
            channel_ioctl k um e filp (SERVICEFS_MSG_SEND_IMPULSE k) arg (svc, tr)
              = Ok (- EINVAL, svc, tr))"
proof (intro conjI impI)
  assume "get_sendv um arg = Some p \<and>
            ((sp_svec p = 0 \<and> sp_scnt p \<noteq> 0) \<or> (sp_rvec p = 0 \<and> sp_rcnt p \<noteq> 0)
             \<or> (sp_fds p = 0 \<and> sp_fdcnt p \<noteq> 0))"
  then show "channel_ioctl k um e filp (SERVICEFS_MSG_SENDV k) arg (svc, tr)
               = Ok (- EINVAL, svc, tr)"
    using assms by (intro channel_ioctl_sendv_rejected) auto
next
  assume "get_send_impulse um arg = Some q \<and> ip_buf q = 0 \<and> ip_len q \<noteq> 0"
  then show "channel_ioctl k um e filp (SERVICEFS_MSG_SEND_IMPULSE k) arg (svc, tr)
               = Ok (- EINVAL, svc, tr)"
    using assms by (intro channel_ioctl_impulse_rejected) auto
qed

text \<open>
  The theorem at a concrete call: an ordinary operation code 7, a null handle list
  declared to hold three handles, and a null impulse buffer declared to hold 8 bytes.
\<close>

theorem null_array_rejected_witness:
  "abi_ok abi0
   \<and> channel_ioctl abi0
        (um0\<lparr>get_sendv := \<lambda>a. Some \<lparr>sp_op = 7, sp_svec = 0, sp_scnt = 0, sp_rvec = 0,
                                      sp_rcnt = 0, sp_fds = 0, sp_fdcnt = 3\<rparr>\<rparr>)
        env0 (filp0\<lparr>private_data := PChannel 0\<rparr>) (SERVICEFS_MSG_SENDV abi0) 64 (service1, [])
      = Ok (- EINVAL, service1, [])
   \<and> channel_ioctl abi0
        (um0\<lparr>get_send_impulse := \<lambda>a. Some \<lparr>ip_op = 7, ip_buf = 0, ip_len = 8\<rparr>\<rparr>)
        env0 (filp0\<lparr>private_data := PChannel 0\<rparr>) (SERVICEFS_MSG_SEND_IMPULSE abi0) 64
        (service1, [])
      = Ok (- EINVAL, service1, [])"
proof -
  have c: "private_data (filp0\<lparr>private_data := PChannel 0\<rparr>) = PChannel 0" by simp
  show ?thesis
    using abi0_ok
      null_array_rejected [OF abi0_ok c,
        of "um0\<lparr>get_sendv := \<lambda>a. Some \<lparr>sp_op = 7, sp_svec = 0, sp_scnt = 0, sp_rvec = 0,
                                      sp_rcnt = 0, sp_fds = 0, sp_fdcnt = 3\<rparr>\<rparr>" 64
           "\<lparr>sp_op = 7, sp_svec = 0, sp_scnt = 0, sp_rvec = 0,
                                      sp_rcnt = 0, sp_fds = 0, sp_fdcnt = 3\<rparr>" env0 service1 "[]"]
      null_array_rejected [OF abi0_ok c,
        of "um0\<lparr>get_send_impulse := \<lambda>a. Some \<lparr>ip_op = 7, ip_buf = 0, ip_len = 8\<rparr>\<rparr>" 64 _
           env0 service1 "[]" "\<lparr>ip_op = 7, ip_buf = 0, ip_len = 8\<rparr>"]
    by simp
qed

subsection \<open>Unknown commands\<close>

text \<open>
  Claim C9, as the code has it. A command that is none of the commands of the side it
  is sent to ends in the \<open>default\<close> branch of the dispatcher (or earlier, at the tests
  of the type character and the command number), and the call returns \<open>-ENOTTY\<close>, not
  \<open>-EINVAL\<close>; the state is unchanged.
\<close>

theorem unknown_command_enotty:
  "(cmd \<notin> set (service_cmds k) \<and> private_data filp = PService \<longrightarrow>
      service_ioctl k um e filp cmd arg svc = Ok (- ENOTTY, svc))
   \<and> (cmd \<notin> set (channel_cmds k) \<and> private_data filp = PChannel c \<longrightarrow>
      channel_ioctl k um e filp cmd arg st = Ok (- ENOTTY, st))"
  using service_ioctl_unknown [of cmd k filp um e arg svc]
    channel_ioctl_unknown [of cmd k filp c um e arg st]
  by blast

text \<open>
  The theorem at the command 0x7812, which has the type character and is no command
  of \<open>abi0\<close>, sent to the service side and to the channel side.
\<close>

theorem unknown_command_enotty_witness:
  "(0x7812 :: c_uint) \<notin> set (service_cmds abi0) \<and> (0x7812 :: c_uint) \<notin> set (channel_cmds abi0)
   \<and> service_ioctl abi0 um0 env0 (filp0\<lparr>private_data := PService\<rparr>) 0x7812 0 service1
       = Ok (- ENOTTY, service1)
   \<and> channel_ioctl abi0 um0 env0 (filp0\<lparr>private_data := PChannel 0\<rparr>) 0x7812 0 (service1, [])
       = Ok (- ENOTTY, service1, [])"
proof -
  have a: "(0x7812 :: c_uint) \<notin> set (service_cmds abi0)"
    by (simp add: service_cmds_def abi0_def)
  have b: "(0x7812 :: c_uint) \<notin> set (channel_cmds abi0)"
    by (simp add: channel_cmds_def abi0_def)
  show ?thesis
    using a b
      unknown_command_enotty [of "0x7812" abi0 "filp0\<lparr>private_data := PService\<rparr>" um0 env0 0
        service1]
      unknown_command_enotty [of "0x7812" abi0 "filp0\<lparr>private_data := PChannel 0\<rparr>" um0 env0 0 _
        0 "(service1, [])"]
    by simp
qed

text \<open>
  Claim C9 as stated fails: the command 0x80007805 passes both tests at the head of
  \<open>service_ioctl\<close> (type character \<open>'x'\<close>, number 5), is no case label, and the call
  returns \<open>-ENOTTY\<close>, which is not \<open>-EINVAL\<close>. The same holds on the channel side.
\<close>

theorem unknown_command_counterexample:
  "service_ioctl abi0 um0 env0 (filp0\<lparr>private_data := PService\<rparr>) 0x80007805 0 service1
     = Ok (- ENOTTY, service1)
   \<and> channel_ioctl abi0 um0 env0 (filp0\<lparr>private_data := PChannel 0\<rparr>) 0x80007805 0
        (service1, [])
     = Ok (- ENOTTY, service1, [])
   \<and> (- ENOTTY :: c_long) \<noteq> - EINVAL"
  by (simp add: service_ioctl_def channel_ioctl_def abi0_def filp0_def IOC_TYPE_def IOC_NR_def
      scast_neg_errno)
     (simp add: ENOTTY_def EINVAL_def)

subsection \<open>Readiness of a service\<close>

text \<open>
  Claim C3. The poll operation on the file of a service reports
  \<open>POLLIN | POLLRDNORM\<close> if and only if the impulse queue or the queue of pending
  messages of the service is not empty, and reports no event otherwise.
\<close>

theorem service_poll_readable:
  "private_data filp = PService \<Longrightarrow>
   \<exists>mask wait'. service_poll filp svc wait = Ok (mask, wait') \<and>
     (mask = (POLLIN OR POLLRDNORM) \<longleftrightarrow> (s_impulses svc \<noteq> [] \<or> s_messages svc \<noteq> [])) \<and>
     (mask = 0 \<longleftrightarrow> (s_impulses svc = [] \<and> s_messages svc = []))"
  using pollmask_nonzero by (auto simp: service_poll_def Let_def)

text \<open>The theorem on a service with one queued impulse and no poll table.\<close>

theorem service_poll_readable_witness:
  "private_data (filp0\<lparr>private_data := PService\<rparr>) = PService
   \<and> service_poll (filp0\<lparr>private_data := PService\<rparr>) (service0\<lparr>s_impulses := [imp0]\<rparr>) None
       = Ok (POLLIN OR POLLRDNORM, None)"
proof -
  have h: "private_data (filp0\<lparr>private_data := PService\<rparr>) = PService" by simp
  from service_poll_readable [OF h, of "service0\<lparr>s_impulses := [imp0]\<rparr>" None]
  obtain mask wait' where
    r: "service_poll (filp0\<lparr>private_data := PService\<rparr>) (service0\<lparr>s_impulses := [imp0]\<rparr>) None
          = Ok (mask, wait')"
    and m: "mask = (POLLIN OR POLLRDNORM)"
    by auto
  have "wait' = None"
    using r by (simp add: service_poll_def poll_wait_def Let_def)
  then show ?thesis using h r m by simp
qed

subsection \<open>Detaching a channel\<close>

text \<open>
  Claim C4. Releasing the file of a channel \<open>c\<close> returns 0 and takes \<open>c\<close> out of the
  channel set of the service, for every behaviour of the close notification. The
  first conjunct is the whole result of \<open>channel_release\<close>: the count of the service
  goes down by one; when the service has \<open>SERVICE_FLAGS_CLOSE_NOTIFY\<close> one
  uninterruptible send with the close code is made on behalf of \<open>c\<close>, its result is
  dropped and \<open>remove_channel\<close> runs on the service the send left; otherwise nothing is
  sent and \<open>remove_channel\<close> runs on the service as it was. The second conjunct says what
  \<open>remove_channel\<close> does to a service: the channel set loses exactly \<open>c\<close>, the other
  channels stay in their order, and the count, the flags and the two pending queues
  are untouched. The third conjunct is the claim in short. The theorem holds for every
  environment \<open>e\<close>, so for a send that succeeds and for one that fails. The inode
  carries its service, as it does for every file that was opened on it; the send is
  taken to return.
\<close>

theorem channel_release_detaches:
  assumes "i_private ino = Some svc" and "private_data filp = PChannel c"
  shows "channel_release k e ino filp tr =
           (if s_flags svc AND SERVICE_FLAGS_CLOSE_NOTIFY \<noteq> 0 then
              Ok (0,
                  ino\<lparr>i_private := Some (remove_channel c (snd (sendv_body e
                     \<lparr>sv_channel = c, sv_op = SERVICEFS_OP_UNIX_CLOSE k, sv_svec = None,
                      sv_scnt = 0, sv_rvec = None, sv_rcnt = 0, sv_fds = None, sv_fdcnt = 0,
                      sv_task_state = TASK_UNINTERRUPTIBLE\<rparr>
                     (svc\<lparr>s_count := s_count svc - 1\<rparr>))))\<rparr>,
                  filp,
                  tr @ [Sendv \<lparr>sv_channel = c, sv_op = SERVICEFS_OP_UNIX_CLOSE k,
                               sv_svec = None, sv_scnt = 0, sv_rvec = None, sv_rcnt = 0,
                               sv_fds = None, sv_fdcnt = 0,
                               sv_task_state = TASK_UNINTERRUPTIBLE\<rparr>])
            else
              Ok (0, ino\<lparr>i_private := Some (remove_channel c (svc\<lparr>s_count := s_count svc - 1\<rparr>))\<rparr>,
                  filp, tr))
       \<and> (\<forall>s. channel_ids (remove_channel c s) = channel_ids s - {c}
              \<and> s_channels (remove_channel c s) = filter (\<lambda>ch. c_id ch \<noteq> c) (s_channels s)
              \<and> s_count (remove_channel c s) = s_count s
              \<and> s_flags (remove_channel c s) = s_flags s
              \<and> s_impulses (remove_channel c s) = s_impulses s
              \<and> s_messages (remove_channel c s) = s_messages s)
       \<and> (\<exists>svc' tr'. channel_release k e ino filp tr
                          = Ok (0, ino\<lparr>i_private := Some svc'\<rparr>, filp, tr')
                        \<and> c \<notin> channel_ids svc')"
proof -
  have eq: "channel_release k e ino filp tr =
           (if s_flags svc AND SERVICE_FLAGS_CLOSE_NOTIFY \<noteq> 0 then
              Ok (0,
                  ino\<lparr>i_private := Some (remove_channel c (snd (sendv_body e
                     \<lparr>sv_channel = c, sv_op = SERVICEFS_OP_UNIX_CLOSE k, sv_svec = None,
                      sv_scnt = 0, sv_rvec = None, sv_rcnt = 0, sv_fds = None, sv_fdcnt = 0,
                      sv_task_state = TASK_UNINTERRUPTIBLE\<rparr>
                     (svc\<lparr>s_count := s_count svc - 1\<rparr>))))\<rparr>,
                  filp,
                  tr @ [Sendv \<lparr>sv_channel = c, sv_op = SERVICEFS_OP_UNIX_CLOSE k,
                               sv_svec = None, sv_scnt = 0, sv_rvec = None, sv_rcnt = 0,
                               sv_fds = None, sv_fdcnt = 0,
                               sv_task_state = TASK_UNINTERRUPTIBLE\<rparr>])
            else
              Ok (0, ino\<lparr>i_private := Some (remove_channel c (svc\<lparr>s_count := s_count svc - 1\<rparr>))\<rparr>,
                  filp, tr))"
    using assms
    by (simp add: channel_release_def Let_def servicefs_msg_sendv_uninterruptible_def
        servicefs_msg_sendv_def split: prod.splits)
  have rm: "\<And>s. channel_ids (remove_channel c s) = channel_ids s - {c}
              \<and> s_channels (remove_channel c s) = filter (\<lambda>ch. c_id ch \<noteq> c) (s_channels s)
              \<and> s_count (remove_channel c s) = s_count s
              \<and> s_flags (remove_channel c s) = s_flags s
              \<and> s_impulses (remove_channel c s) = s_impulses s
              \<and> s_messages (remove_channel c s) = s_messages s"
    by (auto simp: channel_ids_def remove_channel_def)
  have ex: "\<exists>svc' tr'. channel_release k e ino filp tr
                          = Ok (0, ino\<lparr>i_private := Some svc'\<rparr>, filp, tr')
                        \<and> c \<notin> channel_ids svc'"
  proof (cases "s_flags svc AND SERVICE_FLAGS_CLOSE_NOTIFY \<noteq> 0")
    case True
    with eq remove_channel_ids show ?thesis by (simp del: not_None_eq) blast
  next
    case False
    with eq remove_channel_ids show ?thesis by (simp del: not_None_eq) blast
  qed
  from eq rm ex show ?thesis by blast
qed

text \<open>
  The theorem on a service with the channels 0 and 1 that asks for the close
  notification, in the environment in which every send fails: releasing channel 0
  returns 0, the count goes from 3 to 2, channel 1 stays, and the trace shows the one
  uninterruptible send, which failed.
\<close>

theorem channel_release_detaches_witness:
  "i_private \<lparr>i_private = Some (service1\<lparr>s_count := 3, s_channels :=
       [\<lparr>c_id = 0, c_events = 0, c_flags = 0, c_context = 0\<rparr>,
        \<lparr>c_id = 1, c_events = 0, c_flags = 0, c_context = 0\<rparr>]\<rparr>)\<rparr>
     = Some (service1\<lparr>s_count := 3, s_channels :=
       [\<lparr>c_id = 0, c_events = 0, c_flags = 0, c_context = 0\<rparr>,
        \<lparr>c_id = 1, c_events = 0, c_flags = 0, c_context = 0\<rparr>]\<rparr>)
   \<and> private_data (filp0\<lparr>private_data := PChannel 0\<rparr>) = PChannel 0
   \<and> fst (sendv_body env_fail
            \<lparr>sv_channel = 0, sv_op = 1, sv_svec = None, sv_scnt = 0, sv_rvec = None,
             sv_rcnt = 0, sv_fds = None, sv_fdcnt = 0, sv_task_state = TASK_UNINTERRUPTIBLE\<rparr>
            (service1\<lparr>s_count := 2\<rparr>)) <s 0
   \<and> channel_release abi0 env_fail
        \<lparr>i_private = Some (service1\<lparr>s_count := 3, s_channels :=
           [\<lparr>c_id = 0, c_events = 0, c_flags = 0, c_context = 0\<rparr>,
            \<lparr>c_id = 1, c_events = 0, c_flags = 0, c_context = 0\<rparr>]\<rparr>)\<rparr>
        (filp0\<lparr>private_data := PChannel 0\<rparr>) []
      = Ok (0,
            \<lparr>i_private = Some (service1\<lparr>s_count := 2, s_channels :=
               [\<lparr>c_id = 1, c_events = 0, c_flags = 0, c_context = 0\<rparr>]\<rparr>)\<rparr>,
            filp0\<lparr>private_data := PChannel 0\<rparr>,
            [Sendv \<lparr>sv_channel = 0, sv_op = 1, sv_svec = None, sv_scnt = 0, sv_rvec = None,
                    sv_rcnt = 0, sv_fds = None, sv_fdcnt = 0,
                    sv_task_state = TASK_UNINTERRUPTIBLE\<rparr>])"
proof -
  have h1: "i_private \<lparr>i_private = Some (service1\<lparr>s_count := 3, s_channels :=
       [\<lparr>c_id = 0, c_events = 0, c_flags = 0, c_context = 0\<rparr>,
        \<lparr>c_id = 1, c_events = 0, c_flags = 0, c_context = 0\<rparr>]\<rparr>)\<rparr>
     = Some (service1\<lparr>s_count := 3, s_channels :=
       [\<lparr>c_id = 0, c_events = 0, c_flags = 0, c_context = 0\<rparr>,
        \<lparr>c_id = 1, c_events = 0, c_flags = 0, c_context = 0\<rparr>]\<rparr>)" by simp
  have h2: "private_data (filp0\<lparr>private_data := PChannel 0\<rparr>) = PChannel 0" by simp
  have f: "fst (sendv_body env_fail
            \<lparr>sv_channel = 0, sv_op = 1, sv_svec = None, sv_scnt = 0, sv_rvec = None,
             sv_rcnt = 0, sv_fds = None, sv_fdcnt = 0, sv_task_state = TASK_UNINTERRUPTIBLE\<rparr>
            (service1\<lparr>s_count := 2\<rparr>)) <s 0"
    by (simp add: env_fail_def ENOMEM_def word_sless_alt)
  show ?thesis
    using h1 h2 f
      channel_release_detaches [OF h1 h2, where k = abi0 and e = env_fail and tr = "[]",
        THEN conjunct1]
    by (simp add: service1_def service0_def flag_values env_fail_def remove_channel_def
        abi0_def)
qed

subsection \<open>Attaching to a dead service\<close>

text \<open>
  Claim C5, evaluated on the code. An open of the inode of the canceled service
  \<open>service_dead\<close>, whose own file is open (count 1), gets no channel from
  \<open>get_new_channel\<close>; \<open>initial_open\<close> then returns \<open>-EINVAL\<close>, the code of an invalid
  argument, where the claim asks for the code of a canceled service. The channel set
  is unchanged and nothing is sent.
\<close>

theorem attach_dead_service_einval:
  "is_service_canceled service_dead
   \<and> initial_open abi0 env0 \<lparr>i_private = Some service_dead\<rparr> filp0 [] =
       (- EINVAL, \<lparr>i_private = Some (service_dead\<lparr>s_count := 2\<rparr>)\<rparr>, filp0, [])
   \<and> s_channels (service_dead\<lparr>s_count := 2\<rparr>) = s_channels service_dead"
  by (simp add: initial_open_def Let_def service_dead_def service0_def get_new_channel_def
      is_service_canceled_def flag_values)

subsection \<open>The attach notification\<close>

text \<open>
  Claim C6. When an open attaches a channel \<open>c\<close> to a service that has
  \<open>SERVICE_FLAGS_OPEN_NOTIFY\<close>, \<open>initial_open\<close> sends exactly one message before it
  returns: operation code \<open>SERVICEFS_OP_UNIX_OPEN\<close>, on behalf of \<open>c\<close>, no send vector,
  no receive vector and no handles (all counts 0), in task state
  \<open>TASK_UNINTERRUPTIBLE\<close>. The open returns through the send: its return value is the
  result of the send and its state is the state the send left.
\<close>

theorem initial_open_notifies:
  assumes "i_private ino = Some svc" and "s_count svc + 1 \<noteq> 1"
    and "get_new_channel (svc\<lparr>s_count := s_count svc + 1\<rparr>) = Some (c, svc')"
    and "s_flags svc AND SERVICE_FLAGS_OPEN_NOTIFY \<noteq> 0"
  shows "initial_open k e ino filp tr =
           (ucast (fst (sendv_body e
               \<lparr>sv_channel = c, sv_op = SERVICEFS_OP_UNIX_OPEN k, sv_svec = None, sv_scnt = 0,
                sv_rvec = None, sv_rcnt = 0, sv_fds = None, sv_fdcnt = 0,
                sv_task_state = TASK_UNINTERRUPTIBLE\<rparr> svc')),
            ino\<lparr>i_private := Some (snd (sendv_body e
               \<lparr>sv_channel = c, sv_op = SERVICEFS_OP_UNIX_OPEN k, sv_svec = None, sv_scnt = 0,
                sv_rvec = None, sv_rcnt = 0, sv_fds = None, sv_fdcnt = 0,
                sv_task_state = TASK_UNINTERRUPTIBLE\<rparr> svc'))\<rparr>,
            filp\<lparr>private_data := PChannel c, f_op := channel_file_operations\<rparr>,
            tr @ [Sendv \<lparr>sv_channel = c, sv_op = SERVICEFS_OP_UNIX_OPEN k, sv_svec = None,
                         sv_scnt = 0, sv_rvec = None, sv_rcnt = 0, sv_fds = None,
                         sv_fdcnt = 0, sv_task_state = TASK_UNINTERRUPTIBLE\<rparr>])"
proof -
  have fl: "s_flags svc' = s_flags svc"
    using get_new_channel_links [OF assms(3)] by simp
  show ?thesis
    using assms fl
    by (simp add: initial_open_def Let_def servicefs_msg_sendv_uninterruptible_def
        servicefs_msg_sendv_def split: prod.splits)
qed

text \<open>
  The theorem on the second open of \<open>service0\<close>, in the environment in which the send
  fails: the open returns the failure of the notification.
\<close>

theorem initial_open_notifies_witness:
  "i_private \<lparr>i_private = Some service0\<rparr> = Some service0
   \<and> s_count service0 + 1 \<noteq> 1
   \<and> get_new_channel (service0\<lparr>s_count := s_count service0 + 1\<rparr>) = Some (0, service1)
   \<and> s_flags service0 AND SERVICE_FLAGS_OPEN_NOTIFY \<noteq> 0
   \<and> initial_open abi0 env_fail \<lparr>i_private = Some service0\<rparr> filp0 [] =
       (- ENOMEM, \<lparr>i_private = Some service1\<rparr>,
        filp0\<lparr>private_data := PChannel 0, f_op := channel_file_operations\<rparr>,
        [Sendv \<lparr>sv_channel = 0, sv_op = 0, sv_svec = None, sv_scnt = 0, sv_rvec = None,
                sv_rcnt = 0, sv_fds = None, sv_fdcnt = 0,
                sv_task_state = TASK_UNINTERRUPTIBLE\<rparr>])"
proof -
  have h1: "i_private \<lparr>i_private = Some service0\<rparr> = Some service0" by simp
  have h2: "s_count service0 + 1 \<noteq> 1" by (simp add: service0_def)
  have h3: "get_new_channel (service0\<lparr>s_count := s_count service0 + 1\<rparr>) = Some (0, service1)"
    using get_new_channel_service0_count by (simp add: service0_def)
  have h4: "s_flags service0 AND SERVICE_FLAGS_OPEN_NOTIFY \<noteq> 0"
    by (simp add: service0_def flag_values)
  have u: "(ucast (- ENOMEM :: ssize_t) :: c_int) = - ENOMEM"
    by (simp add: ENOMEM_def)
  show ?thesis
    using h1 h2 h3 h4 u initial_open_notifies [OF h1 h2 h3 h4, of abi0 env_fail filp0 "[]"]
    by (simp add: env_fail_def abi0_def)
qed

subsection \<open>Channels created by the service\<close>

text \<open>
  Claim C7. \<open>servicefs_create_channel\<close>, the channel creation started by the service,
  links a new channel and sends nothing: the trace comes back as it was, whatever the
  flags of the service are, so also when the service has \<open>SERVICE_FLAGS_OPEN_NOTIFY\<close>.
  The new file stays on \<open>initial_file_operations\<close> until
  \<open>servicefs_complete_channel_setup\<close>. The count of the service is at least 1 after
  the increment (the function has a \<open>BUG_ON\<close> for the other case) and the channel
  allocation succeeds. The last conjunct says that no run of the function, successful
  or not, adds to the trace.
\<close>

theorem create_channel_no_notification:
  assumes "i_private ino = Some svc" and "\<not> s_count svc + 1 <s 1"
    and "get_new_channel (svc\<lparr>s_count := s_count svc + 1\<rparr>) = Some (c, svc')"
  shows "servicefs_create_channel ino (Inr addr) flags tr =
           Ok (Inr \<lparr>f_addr = addr, private_data = PChannel c, f_op = initial_file_operations,
                   f_flags = O_RDONLY OR (flags AND (O_NONBLOCK OR O_CLOEXEC))\<rparr>,
               ino\<lparr>i_private := Some svc'\<rparr>, tr)
         \<and> c \<notin> channel_ids svc \<and> c \<in> channel_ids svc'
         \<and> (\<forall>ino2 nf r ino3 tr3.
               servicefs_create_channel ino2 nf flags tr = Ok (r, ino3, tr3) \<longrightarrow> tr3 = tr)"
proof -
  have "\<And>ino2 nf r ino3 tr3.
          servicefs_create_channel ino2 nf flags tr = Ok (r, ino3, tr3) \<Longrightarrow> tr3 = tr"
    by (auto simp: servicefs_create_channel_def Let_def
        split: sum.splits kres.splits if_splits dest: create_channel_open_trace)
  then show ?thesis
    using assms get_new_channel_links [OF assms(3)]
    by (simp add: servicefs_create_channel_def create_channel_open_def Let_def channel_ids_def)
qed

text \<open>
  The theorem on \<open>service0\<close>, which has \<open>SERVICE_FLAGS_OPEN_NOTIFY\<close>: channel 0 is
  linked and the trace stays empty.
\<close>

theorem create_channel_no_notification_witness:
  "i_private \<lparr>i_private = Some service0\<rparr> = Some service0
   \<and> \<not> s_count service0 + 1 <s 1
   \<and> get_new_channel (service0\<lparr>s_count := s_count service0 + 1\<rparr>) = Some (0, service1)
   \<and> s_flags service0 AND SERVICE_FLAGS_OPEN_NOTIFY \<noteq> 0
   \<and> servicefs_create_channel \<lparr>i_private = Some service0\<rparr> (Inr 3) O_NONBLOCK [] =
       Ok (Inr \<lparr>f_addr = 3, private_data = PChannel 0, f_op = initial_file_operations,
               f_flags = O_NONBLOCK\<rparr>, \<lparr>i_private = Some service1\<rparr>, [])
   \<and> 0 \<in> channel_ids service1"
proof -
  have h1: "i_private \<lparr>i_private = Some service0\<rparr> = Some service0" by simp
  have h2: "\<not> s_count service0 + 1 <s 1" by (simp add: service0_def word_sless_alt)
  have h3: "get_new_channel (service0\<lparr>s_count := s_count service0 + 1\<rparr>) = Some (0, service1)"
    using get_new_channel_service0_count by (simp add: service0_def)
  have h4: "s_flags service0 AND SERVICE_FLAGS_OPEN_NOTIFY \<noteq> 0"
    by (simp add: service0_def flag_values)
  have fl: "O_RDONLY OR (O_NONBLOCK AND (O_NONBLOCK OR O_CLOEXEC)) = O_NONBLOCK"
    by (simp add: O_RDONLY_def O_NONBLOCK_def O_CLOEXEC_def)
  show ?thesis
    using h1 h2 h3 h4 create_channel_no_notification [OF h1 h2 h3, of 3 O_NONBLOCK "[]"]
    by (simp add: fl O_RDONLY_def)
qed

subsection \<open>The first open and the later opens\<close>

text \<open>
  Claim C10, as the code has it. The open that takes the count of the service from 0
  to 1 makes the file the service side: \<open>service_file_operations\<close>, whose ioctl entry
  is \<open>service_ioctl\<close>, and no channel is created. Every other open asks for a new
  channel. When it gets one, the channel is new in the channel set, the file is a
  channel file (\<open>channel_file_operations\<close>, whose ioctl entry is \<open>channel_ioctl\<close>, with
  the channel as its private data), and the service with the channel linked is what
  the open leaves in the inode, or what it hands to the attach notification when the
  service asks for one; the open then returns 0, or the result of the notification.
  When it gets none, the open fails with a negative result and the file is left as
  it was, on neither of the two operation sets.
\<close>

theorem initial_open_first_and_later:
  assumes "i_private ino = Some svc"
  shows "(s_count svc = 0 \<longrightarrow>
            initial_open k e ino filp tr =
              (0, ino\<lparr>i_private := Some (svc\<lparr>s_count := 1, s_filp := Some (f_addr filp)\<rparr>)\<rparr>,
               filp\<lparr>private_data := PService, f_op := service_file_operations\<rparr>, tr))
       \<and> (s_count svc \<noteq> 0 \<and>
            get_new_channel (svc\<lparr>s_count := s_count svc + 1\<rparr>) = Some (c, svc') \<longrightarrow>
            initial_open k e ino filp tr =
              (if s_flags svc AND SERVICE_FLAGS_OPEN_NOTIFY \<noteq> 0 then
                 (ucast (fst (sendv_body e
                     \<lparr>sv_channel = c, sv_op = SERVICEFS_OP_UNIX_OPEN k, sv_svec = None,
                      sv_scnt = 0, sv_rvec = None, sv_rcnt = 0, sv_fds = None, sv_fdcnt = 0,
                      sv_task_state = TASK_UNINTERRUPTIBLE\<rparr> svc')),
                  ino\<lparr>i_private := Some (snd (sendv_body e
                     \<lparr>sv_channel = c, sv_op = SERVICEFS_OP_UNIX_OPEN k, sv_svec = None,
                      sv_scnt = 0, sv_rvec = None, sv_rcnt = 0, sv_fds = None, sv_fdcnt = 0,
                      sv_task_state = TASK_UNINTERRUPTIBLE\<rparr> svc'))\<rparr>,
                  filp\<lparr>private_data := PChannel c, f_op := channel_file_operations\<rparr>,
                  tr @ [Sendv \<lparr>sv_channel = c, sv_op = SERVICEFS_OP_UNIX_OPEN k,
                               sv_svec = None, sv_scnt = 0, sv_rvec = None, sv_rcnt = 0,
                               sv_fds = None, sv_fdcnt = 0,
                               sv_task_state = TASK_UNINTERRUPTIBLE\<rparr>])
               else
                 (0, ino\<lparr>i_private := Some svc'\<rparr>,
                  filp\<lparr>private_data := PChannel c, f_op := channel_file_operations\<rparr>, tr))
            \<and> c \<notin> channel_ids svc \<and> channel_ids svc' = insert c (channel_ids svc)
            \<and> s_count svc' = s_count svc + 1)
       \<and> (s_count svc \<noteq> 0 \<and>
            get_new_channel (svc\<lparr>s_count := s_count svc + 1\<rparr>) = None \<longrightarrow>
            (case initial_open k e ino filp tr of
               (r, ino', filp', tr') \<Rightarrow>
                 r <s 0 \<and> filp' = filp \<and> tr' = tr
                 \<and> ino' = ino\<lparr>i_private := Some (svc\<lparr>s_count := s_count svc + 1\<rparr>)\<rparr>))
       \<and> unlocked_ioctl service_file_operations = Service_ioctl
       \<and> unlocked_ioctl channel_file_operations = Channel_ioctl"
proof (intro conjI impI)
  assume "s_count svc = 0"
  then show "initial_open k e ino filp tr =
              (0, ino\<lparr>i_private := Some (svc\<lparr>s_count := 1, s_filp := Some (f_addr filp)\<rparr>)\<rparr>,
               filp\<lparr>private_data := PService, f_op := service_file_operations\<rparr>, tr)"
    using assms by (simp add: initial_open_def Let_def)
next
  assume a: "s_count svc \<noteq> 0 \<and>
             get_new_channel (svc\<lparr>s_count := s_count svc + 1\<rparr>) = Some (c, svc')"
  then have ne: "s_count svc + 1 \<noteq> 1" by simp
  have l: "c \<notin> channel_ids (svc\<lparr>s_count := s_count svc + 1\<rparr>)
           \<and> channel_ids svc' = insert c (channel_ids (svc\<lparr>s_count := s_count svc + 1\<rparr>))
           \<and> s_flags svc' = s_flags (svc\<lparr>s_count := s_count svc + 1\<rparr>)
           \<and> s_count svc' = s_count (svc\<lparr>s_count := s_count svc + 1\<rparr>)"
    using get_new_channel_links [of "svc\<lparr>s_count := s_count svc + 1\<rparr>" c svc'] a by simp
  then have fl: "s_flags svc' = s_flags svc" by simp
  show "initial_open k e ino filp tr =
              (if s_flags svc AND SERVICE_FLAGS_OPEN_NOTIFY \<noteq> 0 then
                 (ucast (fst (sendv_body e
                     \<lparr>sv_channel = c, sv_op = SERVICEFS_OP_UNIX_OPEN k, sv_svec = None,
                      sv_scnt = 0, sv_rvec = None, sv_rcnt = 0, sv_fds = None, sv_fdcnt = 0,
                      sv_task_state = TASK_UNINTERRUPTIBLE\<rparr> svc')),
                  ino\<lparr>i_private := Some (snd (sendv_body e
                     \<lparr>sv_channel = c, sv_op = SERVICEFS_OP_UNIX_OPEN k, sv_svec = None,
                      sv_scnt = 0, sv_rvec = None, sv_rcnt = 0, sv_fds = None, sv_fdcnt = 0,
                      sv_task_state = TASK_UNINTERRUPTIBLE\<rparr> svc'))\<rparr>,
                  filp\<lparr>private_data := PChannel c, f_op := channel_file_operations\<rparr>,
                  tr @ [Sendv \<lparr>sv_channel = c, sv_op = SERVICEFS_OP_UNIX_OPEN k,
                               sv_svec = None, sv_scnt = 0, sv_rvec = None, sv_rcnt = 0,
                               sv_fds = None, sv_fdcnt = 0,
                               sv_task_state = TASK_UNINTERRUPTIBLE\<rparr>])
               else
                 (0, ino\<lparr>i_private := Some svc'\<rparr>,
                  filp\<lparr>private_data := PChannel c, f_op := channel_file_operations\<rparr>, tr))"
    using assms ne a fl
    by (simp add: initial_open_def Let_def servicefs_msg_sendv_uninterruptible_def
        servicefs_msg_sendv_def split: prod.splits)
  show "c \<notin> channel_ids svc" using l by (simp add: channel_ids_def)
  show "channel_ids svc' = insert c (channel_ids svc)" using l by (simp add: channel_ids_def)
  show "s_count svc' = s_count svc + 1" using l by simp
next
  assume a: "s_count svc \<noteq> 0 \<and>
             get_new_channel (svc\<lparr>s_count := s_count svc + 1\<rparr>) = None"
  then have ne: "s_count svc + 1 \<noteq> 1" by simp
  show "case initial_open k e ino filp tr of
          (r, ino', filp', tr') \<Rightarrow>
            r <s 0 \<and> filp' = filp \<and> tr' = tr
            \<and> ino' = ino\<lparr>i_private := Some (svc\<lparr>s_count := s_count svc + 1\<rparr>)\<rparr>"
    using assms ne a by (simp add: initial_open_def Let_def EINVAL_def word_sless_alt)
next
  show "unlocked_ioctl service_file_operations = Service_ioctl"
    by (simp add: unlocked_ioctl_def)
  show "unlocked_ioctl channel_file_operations = Channel_ioctl"
    by (simp add: unlocked_ioctl_def)
qed

text \<open>
  The theorem on four opens, in the environment where sends return 0: the first open
  of a fresh service (count 0); a later open of the live \<open>service0\<close>, which asks for the
  attach notification; a later open of the same service with no flags, where nothing
  is sent; and a later open of the canceled \<open>service_dead\<close>.
\<close>

theorem initial_open_first_and_later_witness:
  "s_count (service0\<lparr>s_count := 0, s_filp := None\<rparr>) = 0
   \<and> initial_open abi0 env0 \<lparr>i_private = Some (service0\<lparr>s_count := 0, s_filp := None\<rparr>)\<rparr>
        filp0 []
      = (0, \<lparr>i_private = Some (service0\<lparr>s_filp := Some 2\<rparr>)\<rparr>,
         filp0\<lparr>private_data := PService, f_op := service_file_operations\<rparr>, [])
   \<and> s_count service0 \<noteq> 0
   \<and> get_new_channel (service0\<lparr>s_count := s_count service0 + 1\<rparr>) = Some (0, service1)
   \<and> initial_open abi0 env0 \<lparr>i_private = Some service0\<rparr> filp0 []
      = (0, \<lparr>i_private = Some service1\<rparr>,
         filp0\<lparr>private_data := PChannel 0, f_op := channel_file_operations\<rparr>,
         [Sendv \<lparr>sv_channel = 0, sv_op = 0, sv_svec = None, sv_scnt = 0, sv_rvec = None,
                 sv_rcnt = 0, sv_fds = None, sv_fdcnt = 0,
                 sv_task_state = TASK_UNINTERRUPTIBLE\<rparr>])
   \<and> get_new_channel (service0\<lparr>s_flags := 0, s_count := s_count (service0\<lparr>s_flags := 0\<rparr>) + 1\<rparr>)
       = Some (0, service1\<lparr>s_flags := 0\<rparr>)
   \<and> initial_open abi0 env0 \<lparr>i_private = Some (service0\<lparr>s_flags := 0\<rparr>)\<rparr> filp0 []
      = (0, \<lparr>i_private = Some (service1\<lparr>s_flags := 0\<rparr>)\<rparr>,
         filp0\<lparr>private_data := PChannel 0, f_op := channel_file_operations\<rparr>, [])
   \<and> channel_ids service1 = insert 0 (channel_ids service0)
   \<and> s_count service_dead \<noteq> 0
   \<and> get_new_channel (service_dead\<lparr>s_count := s_count service_dead + 1\<rparr>) = None
   \<and> fst (snd (snd (initial_open abi0 env0 \<lparr>i_private = Some service_dead\<rparr> filp0 [])))
      = filp0"
proof -
  have a1: "i_private \<lparr>i_private = Some (service0\<lparr>s_count := 0, s_filp := None\<rparr>)\<rparr>
            = Some (service0\<lparr>s_count := 0, s_filp := None\<rparr>)" by simp
  have a2: "i_private \<lparr>i_private = Some service0\<rparr> = Some service0" by simp
  have a3: "i_private \<lparr>i_private = Some service_dead\<rparr> = Some service_dead" by simp
  have a4: "i_private \<lparr>i_private = Some (service0\<lparr>s_flags := 0\<rparr>)\<rparr>
            = Some (service0\<lparr>s_flags := 0\<rparr>)" by simp
  have h1: "s_count (service0\<lparr>s_count := 0, s_filp := None\<rparr>) = 0" by simp
  have h2: "s_count service0 \<noteq> 0" by (simp add: service0_def)
  have h3: "get_new_channel (service0\<lparr>s_count := s_count service0 + 1\<rparr>) = Some (0, service1)"
    using get_new_channel_service0_count by (simp add: service0_def)
  have h4: "s_count service_dead \<noteq> 0" by (simp add: service_dead_def service0_def)
  have h5: "get_new_channel (service_dead\<lparr>s_count := s_count service_dead + 1\<rparr>) = None"
    using service_dead_canceled by (simp add: get_new_channel_dead canceled_count)
  have h6: "get_new_channel
              (service0\<lparr>s_flags := 0, s_count := s_count (service0\<lparr>s_flags := 0\<rparr>) + 1\<rparr>)
            = Some (0, service1\<lparr>s_flags := 0\<rparr>)"
    by (simp add: get_new_channel_def allocate_id_def is_service_canceled_def service0_def
        service1_def flag_values)
  have h7: "s_count (service0\<lparr>s_flags := 0\<rparr>) \<noteq> 0" by (simp add: service0_def)
  have f: "service0\<lparr>s_count := 0, s_filp := None\<rparr>\<lparr>s_count := 1, s_filp := Some (f_addr filp0)\<rparr>
           = service0\<lparr>s_filp := Some 2\<rparr>"
    by (simp add: service0_def filp0_def)
  have fl: "s_flags service0 AND SERVICE_FLAGS_OPEN_NOTIFY \<noteq> 0"
    by (simp add: service0_def flag_values)
  have fl0: "s_flags (service0\<lparr>s_flags := 0\<rparr>) AND SERVICE_FLAGS_OPEN_NOTIFY = 0" by simp
  have u: "(ucast (0 :: ssize_t) :: c_int) = 0" by simp
  have t1: "initial_open abi0 env0
              \<lparr>i_private = Some (service0\<lparr>s_count := 0, s_filp := None\<rparr>)\<rparr> filp0 []
            = (0, \<lparr>i_private = Some (service0\<lparr>s_filp := Some 2\<rparr>)\<rparr>,
               filp0\<lparr>private_data := PService, f_op := service_file_operations\<rparr>, [])"
    using h1 f
      initial_open_first_and_later [OF a1, where k = abi0 and e = env0 and filp = filp0
        and tr = "[]", THEN conjunct1]
    by simp
  have t2: "initial_open abi0 env0 \<lparr>i_private = Some service0\<rparr> filp0 []
      = (0, \<lparr>i_private = Some service1\<rparr>,
         filp0\<lparr>private_data := PChannel 0, f_op := channel_file_operations\<rparr>,
         [Sendv \<lparr>sv_channel = 0, sv_op = 0, sv_svec = None, sv_scnt = 0, sv_rvec = None,
                 sv_rcnt = 0, sv_fds = None, sv_fdcnt = 0,
                 sv_task_state = TASK_UNINTERRUPTIBLE\<rparr>])
      \<and> channel_ids service1 = insert 0 (channel_ids service0)"
    using h2 h3 fl u
      initial_open_first_and_later [OF a2, where k = abi0 and e = env0 and filp = filp0
        and tr = "[]" and c = 0 and svc' = service1]
    by (simp add: env0_def abi0_def)
  have t3: "initial_open abi0 env0 \<lparr>i_private = Some (service0\<lparr>s_flags := 0\<rparr>)\<rparr> filp0 []
      = (0, \<lparr>i_private = Some (service1\<lparr>s_flags := 0\<rparr>)\<rparr>,
         filp0\<lparr>private_data := PChannel 0, f_op := channel_file_operations\<rparr>, [])"
    using h6 h7 fl0
      initial_open_first_and_later [OF a4, where k = abi0 and e = env0 and filp = filp0
        and tr = "[]" and c = 0 and svc' = "service1\<lparr>s_flags := 0\<rparr>"]
    by simp
  have t4: "fst (snd (snd (initial_open abi0 env0 \<lparr>i_private = Some service_dead\<rparr> filp0 [])))
      = filp0"
    using h4 h5
      initial_open_first_and_later [OF a3, where k = abi0 and e = env0 and filp = filp0
        and tr = "[]", THEN conjunct2, THEN conjunct2, THEN conjunct1]
    by (auto split: prod.splits)
  show ?thesis
    using h1 h2 h3 h4 h5 h6 t1 t2 t3 t4 by simp
qed

text \<open>
  Claim C10 as stated fails on a later open of a canceled service. The count of
  \<open>service_dead\<close> is 1, so the open is not the first one; it creates no channel, and
  the file is not put on \<open>channel_file_operations\<close>: it keeps the initial operations,
  which have no ioctl entry.
\<close>

theorem later_open_dead_service_counterexample:
  "s_count service_dead = 1
   \<and> fst (snd (snd (initial_open abi0 env0 \<lparr>i_private = Some service_dead\<rparr> filp0 []))) = filp0
   \<and> f_op filp0 \<noteq> channel_file_operations
   \<and> unlocked_ioctl (f_op filp0) = No_ioctl
   \<and> i_private (fst (snd (initial_open abi0 env0 \<lparr>i_private = Some service_dead\<rparr> filp0 [])))
       = Some (service_dead\<lparr>s_count := 2\<rparr>)
   \<and> channel_ids (service_dead\<lparr>s_count := 2\<rparr>) = {}"
  by (simp add: initial_open_def Let_def service_dead_def service0_def get_new_channel_def
      is_service_canceled_def flag_values filp0_def unlocked_ioctl_def channel_ids_def)

end
